theory Spec2Isabelle
  imports Complex_Main "HOL-Library.AList"
begin

section \<open>JavaScript values and the operations the module applies to them\<close>

text \<open>
  The user module of the store (src/store/modules/user.js) receives the bodies of HTTP
  responses, which are JSON values, and reads them with property accesses, a truthiness
  test, object spread and \<^verbatim>\<open>Array.prototype.map\<close>. A value is one of the JSON
  forms, or \<^verbatim>\<open>undefined\<close>, which a read of a missing property produces.
  An object is its list of own properties in insertion order; a read takes the first
  entry of a key, so a list with distinct keys stands for each object.
\<close>

datatype jsval =
    Undefined
  | Null
  | Bool bool
  | Num real
  | Str string
  | Arr "jsval list"
  | Obj "(string \<times> jsval) list"

text \<open>
  What a handler can throw and a promise can be rejected with: the engine's TypeError
  (with the operation that failed instead of an engine-specific message), an
  \<^verbatim>\<open>Error\<close> object with its message, or any other value a collaborator
  rejects with.
\<close>

datatype type_error =
    ReadOfNullish string
  | NotAFunction string
  | WriteToNonObject string
  | NotPrimitive

datatype exn =
    TypeError type_error
  | Error string
  | Thrown jsval

text \<open>Truthiness (ToBoolean), as \<^verbatim>\<open>&&\<close>, \<^verbatim>\<open>||\<close> and \<^verbatim>\<open>if\<close> read a value.\<close>

fun js_truthy :: "jsval \<Rightarrow> bool" where
  "js_truthy Undefined = False"
| "js_truthy Null = False"
| "js_truthy (Bool b) = b"
| "js_truthy (Num r) = (r \<noteq> 0)"
| "js_truthy (Str s) = (s \<noteq> [])"
| "js_truthy (Arr xs) = True"
| "js_truthy (Obj kvs) = True"

text \<open>
  A property read \<^verbatim>\<open>v.p\<close>. It throws on \<^verbatim>\<open>undefined\<close> and
  \<^verbatim>\<open>null\<close>. The module reads only the properties result, token, role,
  permissions, length, actionEntitySet, action, permissionId, name and avatar: none of
  them is inherited from a prototype except \<^verbatim>\<open>length\<close> of arrays and strings,
  so every other read is a lookup among the own properties of an object and
  \<^verbatim>\<open>undefined\<close> on anything else. The call of the method \<^verbatim>\<open>map\<close> is
  \<open>js_map\<close> below.
\<close>

fun js_get :: "jsval \<Rightarrow> string \<Rightarrow> exn + jsval" where
  "js_get Undefined p = Inl (TypeError (ReadOfNullish p))"
| "js_get Null p = Inl (TypeError (ReadOfNullish p))"
| "js_get (Obj kvs) p = Inr (case map_of kvs p of None \<Rightarrow> Undefined | Some v \<Rightarrow> v)"
| "js_get (Arr xs) p = Inr (if p = ''length'' then Num (real (length xs)) else Undefined)"
| "js_get (Str s) p = Inr (if p = ''length'' then Num (real (length s)) else Undefined)"
| "js_get (Bool b) p = Inr Undefined"
| "js_get (Num r) p = Inr Undefined"

text \<open>
  The comparison \<^verbatim>\<open>v > 0\<close> converts \<open>v\<close> to a number. For
  \<^verbatim>\<open>undefined\<close> (NaN), \<^verbatim>\<open>null\<close> (0), booleans and numbers the
  conversion is fixed here. A string, an array or an object goes through the engine's
  ToPrimitive and its parser of numeric strings, which may also throw; that conversion
  is the parameter \<open>coerce\<close>, whose result \<open>None\<close> is NaN and whose error is
  the TypeError of an object that has no primitive value. The module
  compares only \<^verbatim>\<open>permissions.length\<close>, which is a number whenever
  \<^verbatim>\<open>permissions\<close> is an array or a string.
\<close>

fun ToNumber :: "(jsval \<Rightarrow> exn + real option) \<Rightarrow> jsval \<Rightarrow> exn + real option" where
  "ToNumber coerce Undefined = Inr None"
| "ToNumber coerce Null = Inr (Some 0)"
| "ToNumber coerce (Bool b) = Inr (Some (if b then 1 else 0))"
| "ToNumber coerce (Num r) = Inr (Some r)"
| "ToNumber coerce v = coerce v"

definition js_gt_zero :: "(jsval \<Rightarrow> exn + real option) \<Rightarrow> jsval \<Rightarrow> exn + bool" where
  "js_gt_zero coerce v =
     (case ToNumber coerce v of
        Inl e \<Rightarrow> Inl e
      | Inr None \<Rightarrow> Inr False
      | Inr (Some r) \<Rightarrow> Inr (0 < r))"

text \<open>Decimal digits of an index, for the keys object spread gives to array elements.\<close>

fun show_nat :: "nat \<Rightarrow> string" where
  "show_nat n =
     (if n < 10 then [char_of (48 + n)]
      else show_nat (n div 10) @ [char_of (48 + n mod 10)])"

declare show_nat.simps [simp del]

text \<open>
  Object spread \<^verbatim>\<open>{ ...v }\<close>: the own enumerable properties of \<open>v\<close>. It
  never throws; \<^verbatim>\<open>undefined\<close>, \<^verbatim>\<open>null\<close>, booleans and numbers have none,
  an array and a string have their indices.
\<close>

fun js_spread :: "jsval \<Rightarrow> (string \<times> jsval) list" where
  "js_spread (Obj kvs) = kvs"
| "js_spread (Arr xs) = zip (map show_nat [0..<length xs]) xs"
| "js_spread (Str s) = zip (map show_nat [0..<length s]) (map (\<lambda>c. Str [c]) s)"
| "js_spread v = []"

text \<open>
  The callbacks of \<^verbatim>\<open>map\<close> run on the elements in order; the first one that
  throws ends the call.
\<close>

fun map_exn :: "('a \<Rightarrow> exn + 'b) \<Rightarrow> 'a list \<Rightarrow> exn + 'b list" where
  "map_exn f [] = Inr []"
| "map_exn f (x # xs) =
     (case f x of
        Inl e \<Rightarrow> Inl e
      | Inr y \<Rightarrow> (case map_exn f xs of Inl e \<Rightarrow> Inl e | Inr ys \<Rightarrow> Inr (y # ys)))"

text \<open>
  The method call \<^verbatim>\<open>v.map(f)\<close>. Only an array has a callable \<^verbatim>\<open>map\<close>:
  on \<^verbatim>\<open>undefined\<close> and \<^verbatim>\<open>null\<close> the read of the method throws, and on every
  other value the property is \<^verbatim>\<open>undefined\<close> or, for an object with an own
  property of that name, a JSON value, and the call of it throws.
\<close>

fun js_map :: "(jsval \<Rightarrow> exn + jsval) \<Rightarrow> jsval \<Rightarrow> exn + jsval" where
  "js_map f (Arr xs) = (case map_exn f xs of Inl e \<Rightarrow> Inl e | Inr ys \<Rightarrow> Inr (Arr ys))"
| "js_map f Undefined = Inl (TypeError (ReadOfNullish ''map''))"
| "js_map f Null = Inl (TypeError (ReadOfNullish ''map''))"
| "js_map f v = Inl (TypeError (NotAFunction ''map''))"

text \<open>
  An assignment \<^verbatim>\<open>v.p = x\<close>, returning the object after it: the property keeps
  its place when the object has it and is added last otherwise. The module is strict
  code, where the assignment throws on a primitive. The module assigns only to objects
  (\<open>js_get_truthy_Obj\<close> below); an array, which would take the property, is given
  the error too.
\<close>

fun js_set :: "jsval \<Rightarrow> string \<Rightarrow> jsval \<Rightarrow> exn + jsval" where
  "js_set (Obj kvs) p x = Inr (Obj (AList.update p x kvs))"
| "js_set v p x = Inl (TypeError (WriteToNonObject p))"

section \<open>The expiring cache\<close>

text \<open>
  Modelled from the spec: the expire plugin of the \<^verbatim>\<open>store\<close> package, which
  user.js adds to \<^verbatim>\<open>storage\<close> (line 20) and whose source is not among the
  repository's files. The spec (4.1) gives it a value and an absolute expiry instant per
  key; \<^verbatim>\<open>set\<close> overwrites the entry of the key, \<^verbatim>\<open>get\<close> returns the value
  while the clock reading is before the expiry instant and otherwise returns absent and
  removes the entry, \<^verbatim>\<open>remove\<close> deletes the entry, and when the storage medium is
  unavailable every operation does nothing and \<^verbatim>\<open>get\<close> returns absent.
\<close>

record cache =
  available :: bool
  entries :: "string \<rightharpoonup> jsval \<times> int"

text \<open>
  Modelled from the spec: \<^verbatim>\<open>set(key, value, expiresAtEpochMillis)\<close> overwrites any entry
  of the key; no constraint on the instant.
\<close>

definition storage_set :: "string \<Rightarrow> jsval \<Rightarrow> int \<Rightarrow> cache \<Rightarrow> cache" where
  "storage_set key val expiresAt c =
     (if available c then c\<lparr>entries := (entries c)(key \<mapsto> (val, expiresAt))\<rparr> else c)"

text \<open>
  Modelled from the spec: \<^verbatim>\<open>get(key)\<close> returns the stored value if
  \<^verbatim>\<open>now < expiresAtEpochMillis\<close>; otherwise it returns absent and removes the entry.
  \<open>now\<close> is the clock reading at the call.
\<close>

definition storage_get :: "int \<Rightarrow> string \<Rightarrow> cache \<Rightarrow> jsval option \<times> cache" where
  "storage_get now key c =
     (if available c then
        (case entries c key of
           None \<Rightarrow> (None, c)
         | Some (val, expiresAt) \<Rightarrow>
             if now < expiresAt then (Some val, c)
             else (None, c\<lparr>entries := (entries c)(key := None)\<rparr>))
      else (None, c))"

text \<open>
  Modelled from the spec: \<^verbatim>\<open>remove(key)\<close> deletes the entry; removing a key that has
  none is not an error.
\<close>

definition storage_remove :: "string \<Rightarrow> cache \<Rightarrow> cache" where
  "storage_remove key c =
     (if available c then c\<lparr>entries := (entries c)(key := None)\<rparr> else c)"

section \<open>The state of the module and its mutations\<close>

text \<open>The \<^verbatim>\<open>state\<close> object of the module (lines 23 to 36) with its initial value.\<close>

record state =
  token :: jsval
  name :: jsval
  "welcome" :: jsval
  avatar :: jsval
  roles :: jsval
  info :: jsval

definition initial_state :: state where
  "initial_state =
     \<lparr>token = Str [], name = Str [], welcome = Str [], avatar = Str [],
      roles = Arr [], info = Obj []\<rparr>"

text \<open>The mutations (lines 39 to 56); \<open>SET_NAME\<close> takes the two fields of its payload.\<close>

definition SET_TOKEN :: "state \<Rightarrow> jsval \<Rightarrow> state" where
  "SET_TOKEN s tok = s\<lparr>token := tok\<rparr>"

definition SET_NAME :: "state \<Rightarrow> jsval \<times> jsval \<Rightarrow> state" where
  "SET_NAME s payload = (case payload of (nm, wel) \<Rightarrow> s\<lparr>name := nm, welcome := wel\<rparr>)"

definition SET_AVATAR :: "state \<Rightarrow> jsval \<Rightarrow> state" where
  "SET_AVATAR s av = s\<lparr>avatar := av\<rparr>"

definition SET_ROLES :: "state \<Rightarrow> jsval \<Rightarrow> state" where
  "SET_ROLES s rs = s\<lparr>roles := rs\<rparr>"

definition SET_INFO :: "state \<Rightarrow> jsval \<Rightarrow> state" where
  "SET_INFO s i = s\<lparr>info := i\<rparr>"

text \<open>
  What an action can change: the state of the module, the cache and the console, to
  which \<^verbatim>\<open>console.log\<close> appends its arguments.
\<close>

record world =
  state :: state
  storage :: cache
  console :: "(string \<times> exn) list"

definition commit :: "(state \<Rightarrow> 'p \<Rightarrow> state) \<Rightarrow> 'p \<Rightarrow> world \<Rightarrow> world" where
  "commit mutation payload w = w\<lparr>state := mutation (state w) payload\<rparr>"

section \<open>Promises\<close>

text \<open>
  A promise is pending, fulfilled with a value or rejected with a reason. An action
  returns \<^verbatim>\<open>new Promise((resolve, reject) => ...)\<close>: the model records every call
  of \<^verbatim>\<open>resolve\<close> and \<^verbatim>\<open>reject\<close> the action makes, in order, and the
  returned promise takes the first of them (later calls have no effect) or stays
  pending. The model follows the handlers to the end of the chain, so the world it
  returns is the one after the last handler has run; no other action runs in between
  (the callers do not run two actions of a session at once).
\<close>

datatype promise = Pending | Fulfilled jsval | Rejected exn

datatype settle = Resolve jsval | Reject exn

type_synonym exec = "settle list \<times> world"

fun promise_of :: "settle list \<Rightarrow> promise" where
  "promise_of [] = Pending"
| "promise_of (Resolve v # cs) = Fulfilled v"
| "promise_of (Reject e # cs) = Rejected e"

definition resolve :: "jsval \<Rightarrow> exec \<Rightarrow> exec" where
  "resolve v x = (fst x @ [Resolve v], snd x)"

definition reject :: "exn \<Rightarrow> exec \<Rightarrow> exec" where
  "reject e x = (fst x @ [Reject e], snd x)"

text \<open>
  A handler returns a value or throws, and may have changed the world before. The
  promise that \<^verbatim>\<open>then\<close>, \<^verbatim>\<open>catch\<close> or \<^verbatim>\<open>finally\<close> returns is settled
  by the outcome of the handler when the handler runs, and like the promise it was
  called on otherwise.
\<close>

definition settled_by :: "(exn + jsval) \<times> exec \<Rightarrow> promise \<times> exec" where
  "settled_by r = (case fst r of Inl e \<Rightarrow> (Rejected e, snd r) | Inr v \<Rightarrow> (Fulfilled v, snd r))"

definition promise_then ::
  "(jsval \<Rightarrow> exec \<Rightarrow> (exn + jsval) \<times> exec) \<Rightarrow> promise \<times> exec \<Rightarrow> promise \<times> exec" where
  "promise_then onFulfilled px =
     (case fst px of
        Fulfilled v \<Rightarrow> settled_by (onFulfilled v (snd px))
      | Rejected e \<Rightarrow> px
      | Pending \<Rightarrow> px)"

definition promise_catch ::
  "(exn \<Rightarrow> exec \<Rightarrow> (exn + jsval) \<times> exec) \<Rightarrow> promise \<times> exec \<Rightarrow> promise \<times> exec" where
  "promise_catch onRejected px =
     (case fst px of
        Rejected e \<Rightarrow> settled_by (onRejected e (snd px))
      | Fulfilled v \<Rightarrow> px
      | Pending \<Rightarrow> px)"

definition promise_finally ::
  "(exec \<Rightarrow> (exn + jsval) \<times> exec) \<Rightarrow> promise \<times> exec \<Rightarrow> promise \<times> exec" where
  "promise_finally onFinally px =
     (case fst px of
        Pending \<Rightarrow> px
      | p \<Rightarrow>
          (case onFinally (snd px) of
             (Inl e, x) \<Rightarrow> (Rejected e, x)
           | (Inr v, x) \<Rightarrow> (p, x)))"

section \<open>The actions\<close>

text \<open>
  The collaborators an action imports are its parameters: \<open>ACCESS_TOKEN\<close> is the key
  constant of mutation-types, \<open>now\<close> the reading \<^verbatim>\<open>new Date().getTime()\<close>
  returns when the handler runs, \<open>login\<close>, \<open>getInfo\<close> and \<open>logout\<close> the
  promises the API functions return, \<open>greeting\<close> the string \<^verbatim>\<open>welcome()\<close>
  returns, and \<open>coerce\<close> the engine's conversion of \<open>ToNumber\<close>.
\<close>

subsection \<open>Login (lines 69 to 84)\<close>

definition Login_then :: "string \<Rightarrow> int \<Rightarrow> jsval \<Rightarrow> exec \<Rightarrow> (exn + jsval) \<times> exec" where
  "Login_then ACCESS_TOKEN now response x =
     (case js_get response ''result'' of
        Inl e \<Rightarrow> (Inl e, x)
      | Inr result \<Rightarrow>
          (case js_get result ''token'' of
             Inl e \<Rightarrow> (Inl e, x)
           | Inr tok \<Rightarrow>
               (let w1 = (snd x)\<lparr>storage :=
                            storage_set ACCESS_TOKEN tok (now + 7 * 24 * 60 * 60 * 1000)
                              (storage (snd x))\<rparr>;
                    w2 = commit SET_TOKEN tok w1
                in (Inr Undefined, resolve Undefined (fst x, w2)))))"

definition Login_catch :: "exn \<Rightarrow> exec \<Rightarrow> (exn + jsval) \<times> exec" where
  "Login_catch error x = (Inr Undefined, reject error x)"

definition Login ::
  "string \<Rightarrow> int \<Rightarrow> (jsval \<Rightarrow> promise) \<Rightarrow> jsval \<Rightarrow> world \<Rightarrow> exec" where
  "Login ACCESS_TOKEN now login userInfo w =
     snd (promise_catch Login_catch
            (promise_then (Login_then ACCESS_TOKEN now) (login userInfo, ([], w))))"

subsection \<open>GetInfo (lines 87 to 118)\<close>

text \<open>The callback of the first \<^verbatim>\<open>map\<close> (lines 94 to 100).\<close>

definition normalize_permission :: "jsval \<Rightarrow> exn + jsval" where
  "normalize_permission permission =
     (let per = js_spread permission in
      case js_get permission ''actionEntitySet'' of
        Inl e \<Rightarrow> Inl e
      | Inr actionEntitySet \<Rightarrow>
          (case js_map (\<lambda>item. js_get item ''action'')
                  (if js_truthy actionEntitySet then actionEntitySet else Obj []) of
             Inl e \<Rightarrow> Inl e
           | Inr actionList \<Rightarrow> Inr (Obj (AList.update ''actionList'' actionList per))))"

text \<open>
  The role the handler builds from \<^verbatim>\<open>result.role\<close> (lines 93 to 101): a copy
  of it whose \<^verbatim>\<open>permissions\<close> are the normalized ones and whose
  \<^verbatim>\<open>permissionList\<close> is read from them.
\<close>

definition normalize_role :: "jsval \<Rightarrow> exn + jsval" where
  "normalize_role result_role =
     (let role = js_spread result_role in
      case js_get result_role ''permissions'' of
        Inl e \<Rightarrow> Inl e
      | Inr raw \<Rightarrow>
          (case js_map normalize_permission raw of
             Inl e \<Rightarrow> Inl e
           | Inr permissions \<Rightarrow>
               (let role1 = AList.update ''permissions'' permissions role in
                case js_map (\<lambda>permission. js_get permission ''permissionId'') permissions of
                  Inl e \<Rightarrow> Inl e
                | Inr permissionList \<Rightarrow>
                    Inr (Obj (AList.update ''permissionList'' permissionList role1)))))"

text \<open>The condition of line 92.\<close>

definition has_permissions :: "(jsval \<Rightarrow> exn + real option) \<Rightarrow> jsval \<Rightarrow> exn + bool" where
  "has_permissions coerce result_role =
     (if js_truthy result_role then
        (case js_get result_role ''permissions'' of
           Inl e \<Rightarrow> Inl e
         | Inr permissions \<Rightarrow>
             (case js_get permissions ''length'' of
                Inl e \<Rightarrow> Inl e
              | Inr n \<Rightarrow> js_gt_zero coerce n))
      else Inr False)"

text \<open>The commits and the resolution of lines 103 to 110, after the role is built.\<close>

definition GetInfo_commit :: "jsval \<Rightarrow> jsval \<Rightarrow> jsval \<Rightarrow> exec \<Rightarrow> (exn + jsval) \<times> exec" where
  "GetInfo_commit greeting result0 role x =
     (case js_set result0 ''role'' role of
        Inl e \<Rightarrow> (Inl e, x)
      | Inr result \<Rightarrow>
          (let w1 = commit SET_ROLES role (snd x);
               w2 = commit SET_INFO result w1
           in case js_get result ''name'' of
                Inl e \<Rightarrow> (Inl e, (fst x, w2))
              | Inr nm \<Rightarrow>
                  (let w3 = commit SET_NAME (nm, greeting) w2
                   in case js_get result ''avatar'' of
                        Inl e \<Rightarrow> (Inl e, (fst x, w3))
                      | Inr av \<Rightarrow>
                          (let w4 = commit SET_AVATAR av w3
                           in (Inr Undefined, resolve result (fst x, w4))))))"

definition GetInfo_then ::
  "(jsval \<Rightarrow> exn + real option) \<Rightarrow> jsval \<Rightarrow> jsval \<Rightarrow> exec \<Rightarrow> (exn + jsval) \<times> exec" where
  "GetInfo_then coerce greeting response x =
     (case js_get response ''result'' of
        Inl e \<Rightarrow> (Inl e, x)
      | Inr result \<Rightarrow>
          (case js_get result ''role'' of
             Inl e \<Rightarrow> (Inl e, x)
           | Inr result_role \<Rightarrow>
               (case has_permissions coerce result_role of
                  Inl e \<Rightarrow> (Inl e, x)
                | Inr True \<Rightarrow>
                    (case normalize_role result_role of
                       Inl e \<Rightarrow> (Inl e, x)
                     | Inr role \<Rightarrow> GetInfo_commit greeting result role x)
                | Inr False \<Rightarrow>
                    (Inr Undefined,
                     reject (Error ''getInfo: roles must be a non-null array !'') x))))"

definition GetInfo_catch :: "exn \<Rightarrow> exec \<Rightarrow> (exn + jsval) \<times> exec" where
  "GetInfo_catch error x = (Inr Undefined, reject error x)"

definition GetInfo ::
  "(jsval \<Rightarrow> exn + real option) \<Rightarrow> jsval \<Rightarrow> promise \<Rightarrow> world \<Rightarrow> exec" where
  "GetInfo coerce greeting getInfo w =
     snd (promise_catch GetInfo_catch
            (promise_then (GetInfo_then coerce greeting) (getInfo, ([], w))))"

subsection \<open>Logout (lines 121 to 134)\<close>

definition Logout_then :: "string \<Rightarrow> jsval \<Rightarrow> exec \<Rightarrow> (exn + jsval) \<times> exec" where
  "Logout_then ACCESS_TOKEN response x =
     (let w1 = commit SET_TOKEN (Str []) (snd x);
          w2 = commit SET_ROLES (Arr []) w1;
          w3 = w2\<lparr>storage := storage_remove ACCESS_TOKEN (storage w2)\<rparr>
      in (Inr Undefined, resolve Undefined (fst x, w3)))"

text \<open>The handler of \<^verbatim>\<open>catch\<close> logs the error; its call of \<^verbatim>\<open>resolve\<close> is commented out (line 130).\<close>

definition Logout_catch :: "exn \<Rightarrow> exec \<Rightarrow> (exn + jsval) \<times> exec" where
  "Logout_catch err x =
     (Inr Undefined, (fst x, (snd x)\<lparr>console := console (snd x) @ [(''logout fail:'', err)]\<rparr>))"

definition Logout_finally :: "exec \<Rightarrow> (exn + jsval) \<times> exec" where
  "Logout_finally x = (Inr Undefined, x)"

definition Logout :: "string \<Rightarrow> (jsval \<Rightarrow> promise) \<Rightarrow> world \<Rightarrow> exec" where
  "Logout ACCESS_TOKEN logout w =
     snd (promise_finally Logout_finally
            (promise_catch Logout_catch
               (promise_then (Logout_then ACCESS_TOKEN) (logout (token (state w)), ([], w)))))"

section \<open>Example inputs\<close>

text \<open>
  A session after Login and GetInfo, with its token in the cache; collaborators that
  succeed and that fail; and the profile of the spec's normalization example (8), once
  as it is there and once with the \<^verbatim>\<open>actionEntitySet\<close> of its permission left out.
\<close>

definition example_state :: state where
  "example_state =
     \<lparr>token = Str ''T1'', name = Str ''a'', welcome = Str ''hello'', avatar = Str ''a.png'',
      roles = Obj [(''permissionList'', Arr [])], info = Obj [(''name'', Str ''a'')]\<rparr>"

definition example_cache :: cache where
  "example_cache =
     \<lparr>available = True, entries = [''Access-Token'' \<mapsto> (Str ''T1'', 1000)]\<rparr>"

definition example_world :: world where
  "example_world = \<lparr>state = example_state, storage = example_cache, console = []\<rparr>"

definition fresh_world :: world where
  "fresh_world =
     \<lparr>state = initial_state, storage = \<lparr>available = True, entries = Map.empty\<rparr>, console = []\<rparr>"

definition api_succeeds :: "jsval \<Rightarrow> promise" where
  "api_succeeds arg = Fulfilled (Obj [(''result'', Obj [(''token'', Str ''T1'')])])"

definition api_fails :: "jsval \<Rightarrow> promise" where
  "api_fails arg = Rejected (Error ''Network Error'')"

definition coerce_NaN :: "jsval \<Rightarrow> exn + real option" where
  "coerce_NaN v = Inr None"

definition example_permission :: jsval where
  "example_permission =
     Obj [(''permissionId'', Str ''p1''),
          (''actionEntitySet'', Arr [Obj [(''action'', Str ''read'')]])]"

definition example_profile :: jsval where
  "example_profile =
     Obj [(''result'',
           Obj [(''name'', Str ''a''), (''avatar'', Str ''a.png''),
                (''role'', Obj [(''permissions'', Arr [example_permission])])])]"

definition profile_without_actions :: jsval where
  "profile_without_actions =
     Obj [(''result'',
           Obj [(''name'', Str ''a''), (''avatar'', Str ''a.png''),
                (''role'', Obj [(''permissions'', Arr [Obj [(''permissionId'', Str ''p1'')]])])])]"

definition profile_without_role :: jsval where
  "profile_without_role = Obj [(''result'', Obj [(''name'', Str ''a'')])]"


section \<open>Auxiliary facts\<close>

lemmas promise_defs = promise_then_def promise_catch_def promise_finally_def settled_by_def
  resolve_def reject_def

lemmas mutation_defs = commit_def SET_TOKEN_def SET_NAME_def SET_AVATAR_def SET_ROLES_def
  SET_INFO_def

lemmas GetInfo_defs = GetInfo_def GetInfo_then_def GetInfo_catch_def GetInfo_commit_def
  has_permissions_def normalize_role_def normalize_permission_def js_gt_zero_def

text \<open>Only an object has a property with a truthy value, \<^verbatim>\<open>length\<close> apart.\<close>

lemma js_get_truthy_Obj:
  assumes "js_get v p = Inr x" and "js_truthy x" and "p \<noteq> ''length''"
  shows "\<exists>kvs. v = Obj kvs"
  using assms by (cases v) auto

lemma js_get_permissions_Obj:
  assumes "js_get v ''permissions'' = Inr (Arr ps)"
  shows "\<exists>kvs. v = Obj kvs"
  using assms by (cases v) auto

lemma has_permissions_Arr:
  assumes "js_get result_role ''permissions'' = Inr (Arr ps)"
  shows "has_permissions coerce result_role = Inr (ps \<noteq> [])"
proof -
  from assms obtain kvs where "result_role = Obj kvs"
    using js_get_permissions_Obj by blast
  with assms show ?thesis
    by (simp add: has_permissions_def js_gt_zero_def)
qed

lemma has_permissions_falsy:
  assumes "\<not> js_truthy result_role"
  shows "has_permissions coerce result_role = Inr False"
  using assms by (simp add: has_permissions_def)

text \<open>On an object, the commits of GetInfo all happen and the promise is resolved.\<close>

lemma GetInfo_commit_Obj:
  "GetInfo_commit greeting (Obj kvs) role x =
     (Inr Undefined,
      (fst x @ [Resolve (Obj (AList.update ''role'' role kvs))],
       (snd x)\<lparr>state := (state (snd x))
          \<lparr>name := (case map_of (AList.update ''role'' role kvs) ''name'' of
                      None \<Rightarrow> Undefined | Some v \<Rightarrow> v),
           welcome := greeting,
           avatar := (case map_of (AList.update ''role'' role kvs) ''avatar'' of
                      None \<Rightarrow> Undefined | Some v \<Rightarrow> v),
           roles := role,
           info := Obj (AList.update ''role'' role kvs)\<rparr>\<rparr>))"
  by (simp add: GetInfo_commit_def Let_def mutation_defs resolve_def)

lemma GetInfo_Fulfilled:
  assumes "getInfo = Fulfilled response"
  shows "GetInfo coerce greeting getInfo w =
           (case GetInfo_then coerce greeting response ([], w) of
              (Inl e, x) \<Rightarrow> reject e x
            | (Inr v, x) \<Rightarrow> x)"
  using assms
  by (simp add: GetInfo_def GetInfo_catch_def promise_then_def promise_catch_def settled_by_def
      split: prod.splits sum.splits)

text \<open>
  When the role has a non-empty array of permissions, the response's result is an object
  and the outcome of GetInfo is decided by the normalization of the role alone.
\<close>

lemma GetInfo_with_permissions:
  assumes "getInfo = Fulfilled response"
    and "js_get response ''result'' = Inr result"
    and "js_get result ''role'' = Inr result_role"
    and "js_get result_role ''permissions'' = Inr (Arr ps)"
    and "ps \<noteq> []"
  shows "\<exists>kvs. result = Obj kvs \<and>
           GetInfo coerce greeting getInfo w =
             (case normalize_role result_role of
                Inl e \<Rightarrow> ([Reject e], w)
              | Inr role \<Rightarrow> snd (GetInfo_commit greeting (Obj kvs) role ([], w)))"
proof -
  from assms(4) obtain rkvs where "result_role = Obj rkvs"
    using js_get_permissions_Obj by blast
  then have "js_truthy result_role" by simp
  with assms(3) obtain kvs where result: "result = Obj kvs"
    using js_get_truthy_Obj by blast
  have hp: "has_permissions coerce result_role = Inr True"
    using has_permissions_Arr [OF assms(4)] assms(5) by simp
  have "GetInfo coerce greeting getInfo w =
          (case normalize_role result_role of
             Inl e \<Rightarrow> ([Reject e], w)
           | Inr role \<Rightarrow> snd (GetInfo_commit greeting (Obj kvs) role ([], w)))"
    using assms(1-3) hp result
    by (simp add: GetInfo_Fulfilled GetInfo_then_def GetInfo_commit_Obj reject_def
        split: sum.splits)
  with result show ?thesis by blast
qed

text \<open>What \<open>map_exn\<close> returns: the results in order, or the error of the first failure.\<close>

lemma map_exn_Inr:
  assumes "map_exn f xs = Inr ys"
  shows "length ys = length xs \<and> (\<forall>i<length xs. f (xs ! i) = Inr (ys ! i))"
  using assms
proof (induction xs arbitrary: ys)
  case Nil
  then show ?case by simp
next
  case (Cons x xs)
  from Cons.prems obtain y ys' where y: "f x = Inr y" and ys': "map_exn f xs = Inr ys'"
    and ys: "ys = y # ys'"
    by (auto split: sum.splits)
  from Cons.IH [OF ys'] have "length ys' = length xs"
    and "\<forall>i<length xs. f (xs ! i) = Inr (ys' ! i)" by simp_all
  with y ys show ?case by (auto simp add: nth_Cons split: nat.splits)
qed


lemma js_map_Inr:
  assumes "js_map f v = Inr r"
  shows "\<exists>xs ys. v = Arr xs \<and> r = Arr ys \<and> map_exn f xs = Inr ys"
  using assms by (cases v) (auto split: sum.splits)


lemma normalize_role_Inr:
  assumes "normalize_role result_role = Inr role"
  shows "\<exists>ps ids. js_get role ''permissions'' = Inr (Arr ps) \<and>
           js_get role ''permissionList'' = Inr (Arr ids) \<and>
           map_exn (\<lambda>p. js_get p ''permissionId'') ps = Inr ids"
proof -
  from assms obtain raw permissions permissionList where
    p: "js_map normalize_permission raw = Inr permissions"
    and l: "js_map (\<lambda>p. js_get p ''permissionId'') permissions = Inr permissionList"
    and role: "role = Obj (AList.update ''permissionList'' permissionList
                 (AList.update ''permissions'' permissions (js_spread result_role)))"
    by (auto simp add: normalize_role_def Let_def split: sum.splits)
  from p obtain ps where ps: "permissions = Arr ps" using js_map_Inr by blast
  from l ps obtain ids where ids: "permissionList = Arr ids"
    and m: "map_exn (\<lambda>p. js_get p ''permissionId'') ps = Inr ids"
    using js_map_Inr by blast
  show ?thesis using role ps ids m by (simp add: update_conv')
qed

text \<open>GetInfo resolves only after it has committed a role that \<open>normalize_role\<close> built.\<close>

lemma GetInfo_fulfilled_role:
  assumes "promise_of (fst (GetInfo coerce greeting getInfo w)) = Fulfilled r"
  shows "\<exists>result_role role. normalize_role result_role = Inr role \<and>
           roles (state (snd (GetInfo coerce greeting getInfo w))) = role"
proof (cases getInfo)
  case Pending
  with assms show ?thesis by (simp add: GetInfo_def promise_defs)
next
  case (Rejected e)
  with assms show ?thesis by (simp add: GetInfo_def GetInfo_catch_def promise_defs)
next
  case (Fulfilled response)
  show ?thesis
    using assms
    by (auto simp add: GetInfo_Fulfilled [OF Fulfilled] GetInfo_then_def GetInfo_commit_def
        Let_def mutation_defs resolve_def reject_def split: sum.splits bool.splits)
qed

section \<open>Login\<close>

text \<open>
  C5: when the login request is fulfilled with a response whose result carries a token,
  Login stores that token in the cache under \<open>ACCESS_TOKEN\<close> with the expiry instant
  \<open>now + 7 * 24 * 60 * 60 * 1000\<close>, where \<open>now\<close> is the clock reading taken when
  the write is made, commits the token to the state and resolves with no payload
  (\<^verbatim>\<open>resolve()\<close> passes \<^verbatim>\<open>undefined\<close>), once. Nothing else changes. On an
  available cache the entry of the key is then the token with that expiry instant.
\<close>

theorem Login_success:
  assumes "login userInfo = Fulfilled response"
    and "js_get response ''result'' = Inr result"
    and "js_get result ''token'' = Inr tok"
    and "tok \<noteq> Undefined"
  shows "Login ACCESS_TOKEN now login userInfo w =
           ([Resolve Undefined],
            w\<lparr>state := (state w)\<lparr>token := tok\<rparr>,
              storage := storage_set ACCESS_TOKEN tok (now + 7 * 24 * 60 * 60 * 1000) (storage w)\<rparr>)
         \<and> (available (storage w) \<longrightarrow>
              entries (storage (snd (Login ACCESS_TOKEN now login userInfo w))) ACCESS_TOKEN =
                Some (tok, now + 7 * 24 * 60 * 60 * 1000))"
  using assms
  by (simp add: Login_def Login_then_def Login_catch_def promise_defs mutation_defs
      storage_set_def)

theorem Login_success_witness:
  "Login ''Access-Token'' 1000 api_succeeds Null fresh_world =
     ([Resolve Undefined],
      \<lparr>state = initial_state\<lparr>token := Str ''T1''\<rparr>,
       storage = \<lparr>available = True, entries = [''Access-Token'' \<mapsto> (Str ''T1'', 604801000)]\<rparr>,
       console = []\<rparr>)
   \<and> entries (storage (snd (Login ''Access-Token'' 1000 api_succeeds Null fresh_world)))
        ''Access-Token'' = Some (Str ''T1'', 604801000)"
proof -
  have h1: "api_succeeds Null = Fulfilled (Obj [(''result'', Obj [(''token'', Str ''T1'')])])"
    by (simp add: api_succeeds_def)
  have h2: "js_get (Obj [(''result'', Obj [(''token'', Str ''T1'')])]) ''result'' =
              Inr (Obj [(''token'', Str ''T1'')])"
    by simp
  have h3: "js_get (Obj [(''token'', Str ''T1'')]) ''token'' = Inr (Str ''T1'')"
    by simp
  have h4: "Str ''T1'' \<noteq> Undefined"
    by simp
  from Login_success [where login = api_succeeds and userInfo = Null
      and ACCESS_TOKEN = "''Access-Token''" and now = 1000 and w = fresh_world,
      OF h1 h2 h3 h4]
  show ?thesis
    by (simp add: fresh_world_def storage_set_def)
qed

text \<open>
  C6: when the login request is rejected, Login rejects with the same reason, once, and
  the state, the cache and the console are as before the call.
\<close>

theorem Login_failure:
  assumes "login userInfo = Rejected e"
  shows "Login ACCESS_TOKEN now login userInfo w = ([Reject e], w)"
  using assms by (simp add: Login_def Login_catch_def promise_defs)

theorem Login_failure_witness:
  "Login ''Access-Token'' 1000 api_fails Null example_world =
     ([Reject (Error ''Network Error'')], example_world)"
proof -
  have h: "api_fails Null = Rejected (Error ''Network Error'')"
    by (simp add: api_fails_def)
  from Login_failure [where login = api_fails and userInfo = Null, OF h]
  show ?thesis .
qed

section \<open>GetInfo\<close>

text \<open>
  C3: when the response has a result whose role is absent (\<^verbatim>\<open>undefined\<close> or
  \<^verbatim>\<open>null\<close>) or has the empty array as its permissions, GetInfo rejects with the
  validation error of line 112, once, and the state (with the cache and the console) is
  as before the call: no role is committed, an empty one neither.
\<close>

theorem GetInfo_rejects_invalid_role:
  assumes "getInfo = Fulfilled response"
    and "js_get response ''result'' = Inr result"
    and "js_get result ''role'' = Inr result_role"
    and "result_role = Undefined \<or> result_role = Null \<or>
         js_get result_role ''permissions'' = Inr (Arr [])"
  shows "GetInfo coerce greeting getInfo w =
           ([Reject (Error ''getInfo: roles must be a non-null array !'')], w)"
proof -
  have "has_permissions coerce result_role = Inr False"
    using assms(4) has_permissions_Arr [of result_role "[]" coerce]
    by (auto simp add: has_permissions_falsy)
  then show ?thesis
    using assms(1-3) by (simp add: GetInfo_Fulfilled GetInfo_then_def reject_def)
qed

theorem GetInfo_rejects_invalid_role_witness:
  "GetInfo coerce_NaN (Str ''hi'') (Fulfilled profile_without_role) example_world =
     ([Reject (Error ''getInfo: roles must be a non-null array !'')], example_world)
   \<and> GetInfo coerce_NaN (Str ''hi'')
        (Fulfilled (Obj [(''result'', Obj [(''role'', Obj [(''permissions'', Arr [])])])]))
        example_world =
     ([Reject (Error ''getInfo: roles must be a non-null array !'')], example_world)"
proof -
  have a2: "js_get profile_without_role ''result'' = Inr (Obj [(''name'', Str ''a'')])"
    by (simp add: profile_without_role_def)
  have a3: "js_get (Obj [(''name'', Str ''a'')]) ''role'' = Inr Undefined"
    by simp
  have a4: "Undefined = Undefined \<or> Undefined = Null \<or>
            js_get Undefined ''permissions'' = Inr (Arr [])"
    by simp
  have b2: "js_get (Obj [(''result'', Obj [(''role'', Obj [(''permissions'', Arr [])])])]) ''result'' =
              Inr (Obj [(''role'', Obj [(''permissions'', Arr [])])])"
    by simp
  have b3: "js_get (Obj [(''role'', Obj [(''permissions'', Arr [])])]) ''role'' =
              Inr (Obj [(''permissions'', Arr [])])"
    by simp
  have b4: "Obj [(''permissions'', Arr [])] = Undefined \<or> Obj [(''permissions'', Arr [])] = Null \<or>
            js_get (Obj [(''permissions'', Arr [])]) ''permissions'' = Inr (Arr [])"
    by simp
  from GetInfo_rejects_invalid_role [OF refl a2 a3 a4]
    GetInfo_rejects_invalid_role [OF refl b2 b3 b4]
  show ?thesis by simp
qed

text \<open>
  C4: when the role of the response's result has a non-empty array of permissions (the
  role is then an object, hence present), either the normalization of the role throws,
  and GetInfo rejects with what it threw and leaves the state as it was, or it yields
  the normalized role, and GetInfo commits \<open>roles\<close>, \<open>info\<close>, \<open>name\<close>,
  \<open>welcome\<close> and \<open>avatar\<close> together (the token is kept) and resolves, once, with
  the result whose \<open>role\<close> is the normalized role; \<open>info\<close> is that result, and
  \<open>name\<close> and \<open>avatar\<close> are read from it.
\<close>

theorem GetInfo_all_or_nothing:
  assumes "getInfo = Fulfilled response"
    and "js_get response ''result'' = Inr result"
    and "js_get result ''role'' = Inr result_role"
    and "js_get result_role ''permissions'' = Inr (Arr ps)"
    and "ps \<noteq> []"
  shows "case normalize_role result_role of
           Inl e \<Rightarrow> GetInfo coerce greeting getInfo w = ([Reject e], w)
         | Inr role \<Rightarrow>
             (\<exists>result' nm av.
                js_set result ''role'' role = Inr result' \<and>
                js_get result' ''role'' = Inr role \<and>
                js_get result' ''name'' = Inr nm \<and>
                js_get result' ''avatar'' = Inr av \<and>
                GetInfo coerce greeting getInfo w =
                  ([Resolve result'],
                   w\<lparr>state := \<lparr>token = token (state w), name = nm, welcome = greeting,
                                avatar = av, roles = role, info = result'\<rparr>\<rparr>))"
proof -
  from GetInfo_with_permissions [OF assms, of coerce greeting w] obtain kvs where
    result: "result = Obj kvs"
    and run: "GetInfo coerce greeting getInfo w =
                (case normalize_role result_role of
                   Inl e \<Rightarrow> ([Reject e], w)
                 | Inr role \<Rightarrow> snd (GetInfo_commit greeting (Obj kvs) role ([], w)))"
    by blast
  show ?thesis
  proof (cases "normalize_role result_role")
    case (Inl e)
    with run show ?thesis by simp
  next
    case (Inr role)
    with run result show ?thesis
      by (simp add: GetInfo_commit_Obj update_conv')
  qed
qed

theorem GetInfo_all_or_nothing_witness:
  "GetInfo coerce_NaN (Str ''hi'') (Fulfilled example_profile) example_world =
     ([Resolve (Obj [(''name'', Str ''a''), (''avatar'', Str ''a.png''),
                     (''role'',
                      Obj [(''permissions'',
                            Arr [Obj [(''permissionId'', Str ''p1''),
                                      (''actionEntitySet'', Arr [Obj [(''action'', Str ''read'')]]),
                                      (''actionList'', Arr [Str ''read''])]]),
                           (''permissionList'', Arr [Str ''p1''])])])],
      example_world\<lparr>state :=
        \<lparr>token = Str ''T1'', name = Str ''a'', welcome = Str ''hi'', avatar = Str ''a.png'',
         roles = Obj [(''permissions'',
                       Arr [Obj [(''permissionId'', Str ''p1''),
                                 (''actionEntitySet'', Arr [Obj [(''action'', Str ''read'')]]),
                                 (''actionList'', Arr [Str ''read''])]]),
                      (''permissionList'', Arr [Str ''p1''])],
         info = Obj [(''name'', Str ''a''), (''avatar'', Str ''a.png''),
                     (''role'',
                      Obj [(''permissions'',
                            Arr [Obj [(''permissionId'', Str ''p1''),
                                      (''actionEntitySet'', Arr [Obj [(''action'', Str ''read'')]]),
                                      (''actionList'', Arr [Str ''read''])]]),
                           (''permissionList'', Arr [Str ''p1''])])]\<rparr>\<rparr>)"
proof -
  have h2: "js_get example_profile ''result'' =
              Inr (Obj [(''name'', Str ''a''), (''avatar'', Str ''a.png''),
                        (''role'', Obj [(''permissions'', Arr [example_permission])])])"
    by (simp add: example_profile_def)
  have h3: "js_get (Obj [(''name'', Str ''a''), (''avatar'', Str ''a.png''),
                         (''role'', Obj [(''permissions'', Arr [example_permission])])]) ''role'' =
              Inr (Obj [(''permissions'', Arr [example_permission])])"
    by simp
  have h4: "js_get (Obj [(''permissions'', Arr [example_permission])]) ''permissions'' =
              Inr (Arr [example_permission])"
    by simp
  have h5: "[example_permission] \<noteq> []"
    by simp
  from GetInfo_all_or_nothing [OF refl h2 h3 h4 h5, of coerce_NaN "Str ''hi''" example_world]
  show ?thesis
    by (simp add: normalize_role_def normalize_permission_def example_permission_def
        example_world_def example_state_def)
qed

text \<open>
  C7: whenever GetInfo resolves, the role it has committed holds an array
  \<open>permissions\<close> and an array \<open>permissionList\<close> of the same length, and the
  entry of \<open>permissionList\<close> at each index is the \<open>permissionId\<close> of the
  permission at that index. For the profile of the spec's example (one permission with
  \<open>permissionId\<close> p1 and one action entity with \<open>action\<close> read), from every
  world, the committed role has the \<open>permissionList\<close> [p1] and its permission the
  \<open>actionList\<close> [read].
\<close>

theorem GetInfo_permissionList:
  "(promise_of (fst (GetInfo coerce greeting getInfo w)) = Fulfilled r \<longrightarrow>
      (\<exists>ps ids.
         js_get (roles (state (snd (GetInfo coerce greeting getInfo w)))) ''permissions'' =
           Inr (Arr ps) \<and>
         js_get (roles (state (snd (GetInfo coerce greeting getInfo w)))) ''permissionList'' =
           Inr (Arr ids) \<and>
         length ids = length ps \<and>
         (\<forall>i<length ps. js_get (ps ! i) ''permissionId'' = Inr (ids ! i)))) \<and>
   roles (state (snd (GetInfo coerce greeting (Fulfilled example_profile) w))) =
     Obj [(''permissions'',
           Arr [Obj [(''permissionId'', Str ''p1''),
                     (''actionEntitySet'', Arr [Obj [(''action'', Str ''read'')]]),
                     (''actionList'', Arr [Str ''read''])]]),
          (''permissionList'', Arr [Str ''p1''])]"
proof -
  have general: "\<exists>ps ids.
         js_get (roles (state (snd (GetInfo coerce greeting getInfo w)))) ''permissions'' =
           Inr (Arr ps) \<and>
         js_get (roles (state (snd (GetInfo coerce greeting getInfo w)))) ''permissionList'' =
           Inr (Arr ids) \<and>
         length ids = length ps \<and>
         (\<forall>i<length ps. js_get (ps ! i) ''permissionId'' = Inr (ids ! i))"
    if fulfilled: "promise_of (fst (GetInfo coerce greeting getInfo w)) = Fulfilled r"
  proof -
    from GetInfo_fulfilled_role [OF fulfilled] obtain result_role role where
      n: "normalize_role result_role = Inr role"
      and c: "roles (state (snd (GetInfo coerce greeting getInfo w))) = role" by blast
    from normalize_role_Inr [OF n] obtain ps ids where
      "js_get role ''permissions'' = Inr (Arr ps)"
      "js_get role ''permissionList'' = Inr (Arr ids)"
      "map_exn (\<lambda>p. js_get p ''permissionId'') ps = Inr ids" by blast
    with map_exn_Inr [of "\<lambda>p. js_get p ''permissionId''" ps ids] c show ?thesis by auto
  qed
  have example: "roles (state (snd (GetInfo coerce greeting (Fulfilled example_profile) w))) =
     Obj [(''permissions'',
           Arr [Obj [(''permissionId'', Str ''p1''),
                     (''actionEntitySet'', Arr [Obj [(''action'', Str ''read'')]]),
                     (''actionList'', Arr [Str ''read''])]]),
          (''permissionList'', Arr [Str ''p1''])]"
    by (simp add: GetInfo_defs promise_defs mutation_defs example_profile_def
        example_permission_def)
  from general example show ?thesis by blast
qed

theorem GetInfo_permissionList_witness:
  "promise_of (fst (GetInfo coerce_NaN (Str ''hi'') (Fulfilled example_profile) fresh_world)) =
     Fulfilled (Obj [(''name'', Str ''a''), (''avatar'', Str ''a.png''),
                     (''role'',
                      Obj [(''permissions'',
                            Arr [Obj [(''permissionId'', Str ''p1''),
                                      (''actionEntitySet'', Arr [Obj [(''action'', Str ''read'')]]),
                                      (''actionList'', Arr [Str ''read''])]]),
                           (''permissionList'', Arr [Str ''p1''])])])
   \<and> (\<exists>ps ids.
         js_get (roles (state (snd (GetInfo coerce_NaN (Str ''hi'') (Fulfilled example_profile)
                   fresh_world)))) ''permissions'' = Inr (Arr ps) \<and>
         js_get (roles (state (snd (GetInfo coerce_NaN (Str ''hi'') (Fulfilled example_profile)
                   fresh_world)))) ''permissionList'' = Inr (Arr ids) \<and>
         length ids = length ps \<and> length ps = 1 \<and>
         js_get (ps ! 0) ''permissionId'' = Inr (ids ! 0) \<and> ids ! 0 = Str ''p1'')"
proof -
  have h: "promise_of (fst (GetInfo coerce_NaN (Str ''hi'') (Fulfilled example_profile) fresh_world)) =
     Fulfilled (Obj [(''name'', Str ''a''), (''avatar'', Str ''a.png''),
                     (''role'',
                      Obj [(''permissions'',
                            Arr [Obj [(''permissionId'', Str ''p1''),
                                      (''actionEntitySet'', Arr [Obj [(''action'', Str ''read'')]]),
                                      (''actionList'', Arr [Str ''read''])]]),
                           (''permissionList'', Arr [Str ''p1''])])])"
    by (simp add: GetInfo_defs promise_defs mutation_defs example_profile_def
        example_permission_def fresh_world_def)
  from GetInfo_permissionList [of coerce_NaN "Str ''hi''" "Fulfilled example_profile" fresh_world]
    h
  obtain ps ids where
    p: "js_get (roles (state (snd (GetInfo coerce_NaN (Str ''hi'') (Fulfilled example_profile)
                 fresh_world)))) ''permissions'' = Inr (Arr ps)"
    and l: "js_get (roles (state (snd (GetInfo coerce_NaN (Str ''hi'') (Fulfilled example_profile)
                 fresh_world)))) ''permissionList'' = Inr (Arr ids)"
    and n: "length ids = length ps"
    and i: "\<forall>i<length ps. js_get (ps ! i) ''permissionId'' = Inr (ids ! i)"
    and r: "roles (state (snd (GetInfo coerce_NaN (Str ''hi'') (Fulfilled example_profile)
                 fresh_world))) =
             Obj [(''permissions'',
                   Arr [Obj [(''permissionId'', Str ''p1''),
                             (''actionEntitySet'', Arr [Obj [(''action'', Str ''read'')]]),
                             (''actionList'', Arr [Str ''read''])]]),
                  (''permissionList'', Arr [Str ''p1''])]"
    by blast
  from p l r have "length ps = 1" and "ids ! 0 = Str ''p1''" by auto
  with p l n i h show ?thesis by auto
qed

text \<open>
  C2, at a permission without \<open>actionEntitySet\<close>: the fallback of line 97 is the
  object \<^verbatim>\<open>{}\<close>, which has no \<^verbatim>\<open>map\<close>, so the normalization throws a
  TypeError instead of yielding an empty \<open>actionList\<close>, and GetInfo rejects with it
  and commits nothing.
\<close>

theorem GetInfo_absent_actionEntitySet_throws:
  "normalize_permission (Obj [(''permissionId'', Str ''p1'')]) =
     Inl (TypeError (NotAFunction ''map'')) \<and>
   GetInfo coerce_NaN (Str ''hi'') (Fulfilled profile_without_actions) fresh_world =
     ([Reject (TypeError (NotAFunction ''map''))], fresh_world)"
  by (simp add: GetInfo_defs promise_defs profile_without_actions_def)




section \<open>Logout\<close>

text \<open>
  C1, as the code has it: when the logout request is fulfilled, Logout clears
  \<open>token\<close> to the empty string and \<open>roles\<close> to the empty array, removes the
  cache entry of \<open>ACCESS_TOKEN\<close> (a later \<^verbatim>\<open>get\<close> of the key returns absent
  at every clock reading) and resolves with no payload, once. When the request is
  rejected, the handler of \<^verbatim>\<open>catch\<close> logs the reason and nothing else happens:
  the state and the cache are as before the call and the returned promise stays
  pending. In both cases the promise is settled at most once and never rejected.
\<close>

theorem Logout_outcome:
  "(\<forall>v. logout (token (state w)) = Fulfilled v \<longrightarrow>
      Logout ACCESS_TOKEN logout w =
        ([Resolve Undefined],
         w\<lparr>state := (state w)\<lparr>token := Str [], roles := Arr []\<rparr>,
           storage := storage_remove ACCESS_TOKEN (storage w)\<rparr>)) \<and>
   (\<forall>e. logout (token (state w)) = Rejected e \<longrightarrow>
      Logout ACCESS_TOKEN logout w =
        ([], w\<lparr>console := console w @ [(''logout fail:'', e)]\<rparr>)) \<and>
   (\<forall>now. fst (storage_get now ACCESS_TOKEN (storage_remove ACCESS_TOKEN (storage w))) = None) \<and>
   length (fst (Logout ACCESS_TOKEN logout w)) \<le> 1 \<and>
   (\<forall>e. promise_of (fst (Logout ACCESS_TOKEN logout w)) \<noteq> Rejected e)"
  by (cases "logout (token (state w))")
     (simp_all add: Logout_def Logout_then_def Logout_catch_def Logout_finally_def promise_defs
       mutation_defs storage_get_def storage_remove_def)

theorem Logout_outcome_witness:
  "Logout ''Access-Token'' api_succeeds example_world =
     ([Resolve Undefined],
      \<lparr>state = example_state\<lparr>token := Str [], roles := Arr []\<rparr>,
       storage = \<lparr>available = True, entries = Map.empty\<rparr>,
       console = []\<rparr>) \<and>
   Logout ''Access-Token'' api_fails example_world =
     ([], example_world\<lparr>console := [(''logout fail:'', Error ''Network Error'')]\<rparr>)"
proof -
  have s: "api_succeeds (token (state example_world)) =
             Fulfilled (Obj [(''result'', Obj [(''token'', Str ''T1'')])])"
    by (simp add: api_succeeds_def)
  have f: "api_fails (token (state example_world)) = Rejected (Error ''Network Error'')"
    by (simp add: api_fails_def)
  from Logout_outcome [of api_succeeds example_world "''Access-Token''"] s
  have 1: "Logout ''Access-Token'' api_succeeds example_world =
        ([Resolve Undefined],
         example_world\<lparr>state := (state example_world)\<lparr>token := Str [], roles := Arr []\<rparr>,
           storage := storage_remove ''Access-Token'' (storage example_world)\<rparr>)"
    by blast
  from Logout_outcome [of api_fails example_world "''Access-Token''"] f
  have 2: "Logout ''Access-Token'' api_fails example_world =
        ([], example_world\<lparr>console := console example_world @
               [(''logout fail:'', Error ''Network Error'')]\<rparr>)"
    by blast
  from 1 2 show ?thesis
    by (simp add: example_world_def example_cache_def storage_remove_def)
qed

text \<open>
  The statement of C1 without the restriction to a fulfilled request fails: after a
  rejected logout request from a session with token T1, the token and the roles are still
  there, the cache still returns the token, and the promise is pending.
\<close>

theorem Logout_rejected_request_counterexample:
  "token (state (snd (Logout ''Access-Token'' api_fails example_world))) = Str ''T1'' \<and>
   roles (state (snd (Logout ''Access-Token'' api_fails example_world))) =
     Obj [(''permissionList'', Arr [])] \<and>
   fst (storage_get 0 ''Access-Token''
          (storage (snd (Logout ''Access-Token'' api_fails example_world)))) = Some (Str ''T1'') \<and>
   promise_of (fst (Logout ''Access-Token'' api_fails example_world)) = Pending"
  by (simp add: Logout_def Logout_catch_def Logout_finally_def promise_defs api_fails_def
      example_world_def example_state_def example_cache_def storage_get_def)

text \<open>
  C9: whatever the logout request does, Logout leaves \<open>name\<close>, \<open>avatar\<close>,
  \<open>info\<close> and \<open>welcome\<close> as they were.
\<close>

theorem Logout_frame:
  "name (state (snd (Logout ACCESS_TOKEN logout w))) = name (state w) \<and>
   avatar (state (snd (Logout ACCESS_TOKEN logout w))) = avatar (state w) \<and>
   info (state (snd (Logout ACCESS_TOKEN logout w))) = info (state w) \<and>
   welcome (state (snd (Logout ACCESS_TOKEN logout w))) = welcome (state w)"
  by (cases "logout (token (state w))")
     (simp_all add: Logout_def Logout_then_def Logout_catch_def Logout_finally_def promise_defs
       mutation_defs)

section \<open>Expiry in the cache\<close>

text \<open>
  C8, on the cache as the spec describes it: \<^verbatim>\<open>get\<close> returns a value only when the
  cache holds it under the key with an expiry instant after the clock reading; it
  returns that value while the reading is before the expiry instant and leaves the cache
  as it is; from the expiry instant on it returns absent and deletes the entry, so that
  every later \<^verbatim>\<open>get\<close> of the key returns absent too; and a value set with an expiry
  instant that is not after the clock reading is never returned.
\<close>

theorem storage_get_expiry:
  "(\<forall>val. fst (storage_get now key c) = Some val \<longrightarrow>
      (\<exists>expiresAt. available c \<and> entries c key = Some (val, expiresAt) \<and> now < expiresAt)) \<and>
   (\<forall>val expiresAt. available c \<and> entries c key = Some (val, expiresAt) \<and> now < expiresAt \<longrightarrow>
      storage_get now key c = (Some val, c)) \<and>
   (\<forall>val expiresAt. available c \<and> entries c key = Some (val, expiresAt) \<and> expiresAt \<le> now \<longrightarrow>
      fst (storage_get now key c) = None \<and>
      entries (snd (storage_get now key c)) key = None \<and>
      (\<forall>later. fst (storage_get later key (snd (storage_get now key c))) = None)) \<and>
   (\<forall>val expiresAt. expiresAt \<le> now \<longrightarrow>
      fst (storage_get now key (storage_set key val expiresAt c)) = None \<and>
      (\<forall>later. fst (storage_get later key
                  (snd (storage_get now key (storage_set key val expiresAt c)))) = None))"
proof -
  have 1: "\<forall>val. fst (storage_get now key c) = Some val \<longrightarrow>
      (\<exists>expiresAt. available c \<and> entries c key = Some (val, expiresAt) \<and> now < expiresAt)"
    by (auto simp add: storage_get_def split: if_splits option.splits)
  have 2: "\<forall>val expiresAt. available c \<and> entries c key = Some (val, expiresAt) \<and> now < expiresAt \<longrightarrow>
      storage_get now key c = (Some val, c)"
    by (simp add: storage_get_def)
  have 3: "\<forall>val expiresAt. available c \<and> entries c key = Some (val, expiresAt) \<and> expiresAt \<le> now \<longrightarrow>
      fst (storage_get now key c) = None \<and>
      entries (snd (storage_get now key c)) key = None \<and>
      (\<forall>later. fst (storage_get later key (snd (storage_get now key c))) = None)"
    by (simp add: storage_get_def)
  have 4: "\<forall>val expiresAt. expiresAt \<le> now \<longrightarrow>
      fst (storage_get now key (storage_set key val expiresAt c)) = None \<and>
      (\<forall>later. fst (storage_get later key
                  (snd (storage_get now key (storage_set key val expiresAt c)))) = None)"
    by (simp add: storage_get_def storage_set_def)
  from 1 2 3 4 show ?thesis by blast
qed

theorem storage_get_expiry_witness:
  "storage_get 999 ''Access-Token'' example_cache = (Some (Str ''T1''), example_cache) \<and>
   fst (storage_get 1000 ''Access-Token'' example_cache) = None \<and>
   entries (snd (storage_get 1000 ''Access-Token'' example_cache)) ''Access-Token'' = None \<and>
   fst (storage_get 5 ''Access-Token''
          (snd (storage_get 1000 ''Access-Token'' example_cache))) = None \<and>
   fst (storage_get 1000 ''k'' (storage_set ''k'' (Str ''v'') 10 example_cache)) = None \<and>
   fst (storage_get 5 ''k''
          (snd (storage_get 1000 ''k'' (storage_set ''k'' (Str ''v'') 10 example_cache)))) = None"
proof -
  have before: "available example_cache \<and>
      entries example_cache ''Access-Token'' = Some (Str ''T1'', 1000) \<and> (999::int) < 1000"
    by (simp add: example_cache_def)
  have after: "available example_cache \<and>
      entries example_cache ''Access-Token'' = Some (Str ''T1'', 1000) \<and> (1000::int) \<le> 1000"
    by (simp add: example_cache_def)
  have past: "(10::int) \<le> 1000"
    by simp
  note fresh = storage_get_expiry [of 999 "''Access-Token''" example_cache,
      THEN conjunct2, THEN conjunct1, rule_format, OF before]
  note stale = storage_get_expiry [of 1000 "''Access-Token''" example_cache,
      THEN conjunct2, THEN conjunct2, THEN conjunct1, rule_format, OF after]
  note never = storage_get_expiry [of 1000 "''k''" example_cache,
      THEN conjunct2, THEN conjunct2, THEN conjunct2, rule_format, OF past, of "Str ''v''"]
  from stale have s1: "fst (storage_get 1000 ''Access-Token'' example_cache) = None"
    and s2: "entries (snd (storage_get 1000 ''Access-Token'' example_cache)) ''Access-Token'' = None"
    and s3: "fst (storage_get 5 ''Access-Token''
               (snd (storage_get 1000 ''Access-Token'' example_cache))) = None"
    by blast+
  from never have n1: "fst (storage_get 1000 ''k'' (storage_set ''k'' (Str ''v'') 10 example_cache)) = None"
    and n2: "fst (storage_get 5 ''k''
          (snd (storage_get 1000 ''k'' (storage_set ''k'' (Str ''v'') 10 example_cache)))) = None"
    by blast+
  from fresh s1 s2 s3 n1 n2 show ?thesis by blast
qed

end
